theory Spec2Isabelle
  imports Complex_Main
begin

unbundle bit_operations_syntax

section \<open>Data model of \<open>TTauri::GUI::Widgets::Widget\<close>\<close>

text \<open>
  The embedding follows \<open>Widget.cpp\<close>. A \<open>float\<close> or \<open>double\<close> is modelled as the \<open>real\<close>
  it stands for; the model covers finite values (no NaN, no infinities). The functions
  below store and compare such values; the arithmetic they do (adding \<open>1.0\<close> to an
  elevation, subtracting offsets, negating) is taken as exact. The one conversion of the
  source, the narrowing of the solved \<open>double\<close> values to \<open>float\<close> in
  \<open>makeWindowRectangle\<close>, is modelled as the rounding it is.
  A \<open>vec\<close> used as an extent or offset is the pair of its first two components
  (\<open>width()\<close>/\<open>x()\<close> and \<open>height()\<close>/\<open>y()\<close>); an \<open>aarect\<close> is its offset and its extent;
  \<open>mat::T(x, y, z)\<close> is a translation. The clock value \<open>displayTimePoint\<close> is an integer.
\<close>

type_synonym vec = "real \<times> real"
type_synonym aarect = "vec \<times> vec"
type_synonym time_point = int

datatype mat = mat_T real real real

definition vec_width :: "vec \<Rightarrow> real" where
  "vec_width v = fst v"

definition vec_height :: "vec \<Rightarrow> real" where
  "vec_height v = snd v"

definition vec_sub :: "vec \<Rightarrow> vec \<Rightarrow> vec" where
  "vec_sub a b = (fst a - fst b, snd a - snd b)"

definition aarect_offset :: "aarect \<Rightarrow> vec" where
  "aarect_offset r = fst r"

definition aarect_extent :: "aarect \<Rightarrow> vec" where
  "aarect_extent r = snd r"

text \<open>
  The members of a widget. \<open>wid\<close> stands for the identity of the object (its address,
  the \<open>this\<close> pointer stored in a \<open>HitBox\<close>). The four \<open>rhea::variable\<close> members
  \<open>left\<close>, \<open>bottom\<close>, \<open>width\<close>, \<open>height\<close> are modelled by the value that \<open>.value()\<close>
  reads from them; the external solver writes these values when it resolves, the widget
  code only reads them. The six constraint members hold the handles returned by the
  window.
\<close>

type_synonym handle = nat

record widget_data =
  wid :: nat
  elevation :: real
  enabled :: bool
  hover :: bool
  focus :: bool
  minimumExtent :: vec
  preferedExtent :: vec
  fixedExtent :: vec
  minimumWidthConstraint :: handle
  minimumHeightConstraint :: handle
  preferedWidthConstraint :: handle
  preferedHeightConstraint :: handle
  fixedWidthConstraint :: handle
  fixedHeightConstraint :: handle
  left :: real
  bottom :: real
  width :: real
  height :: real
  widthChangePreviousValue :: real
  heightChangePreviousValue :: real
  forceLayout :: bool
  forceRedraw :: bool
  extent :: vec
  offsetFromWindow :: vec
  offsetFromParent :: vec
  fromWindowTransform :: mat
  toWindowTransform :: mat

text \<open>A widget exclusively owns its children: the tree is a datatype.\<close>

datatype widget = Widget (wdata: widget_data) (children: "widget list")

section \<open>The window's constraint solver\<close>

text \<open>
  The widget registers constraints of four shapes on its own variables:
  \<open>width >= c\<close>, \<open>height >= c\<close>, \<open>width == c\<close> and \<open>height == c\<close>, each with a
  \<open>rhea::strength\<close> (\<open>required\<close> when none is given).
\<close>

datatype dimension = Width | Height
datatype relation = GreaterEq | Equal
datatype strength = required | strong | weak

datatype constraint =
  Constraint (c_widget: nat) (c_dimension: dimension) (c_relation: relation)
    (c_value: real) (c_strength: strength)

text \<open>
  Modelled from the spec: the class \<open>Window\<close> with \<open>addConstraint\<close>, \<open>removeConstraint\<close>
  and \<open>replaceConstraint\<close> is not part of the source files. The spec gives the interface
  \<open>add_constraint(expr, strength) -> handle\<close>,
  \<open>replace_constraint(handle, expr, strength) -> handle\<close>, \<open>remove_constraint(handle)\<close>,
  with handles as opaque tokens. The model keeps the registered constraints under their
  handles and hands out fresh handles from a counter; removing a handle that is not
  registered changes nothing; replacing is one solver call that drops the old handle and
  registers the new constraint.
\<close>

record window =
  constraints :: "(handle \<times> constraint) list"
  nextHandle :: handle

definition addConstraint :: "window \<Rightarrow> constraint \<Rightarrow> handle \<times> window" where
  "addConstraint win c =
     (nextHandle win,
      win\<lparr>constraints := constraints win @ [(nextHandle win, c)],
          nextHandle := Suc (nextHandle win)\<rparr>)"

definition removeConstraint :: "window \<Rightarrow> handle \<Rightarrow> window" where
  "removeConstraint win h =
     win\<lparr>constraints := filter (\<lambda>e. fst e \<noteq> h) (constraints win)\<rparr>"


section \<open>Construction and the extent model\<close>

text \<open>
  \<open>Widget::Widget\<close>. The default member initialisers of the class are in its header,
  which is not part of the source files; the object as those initialisers leave it is
  the parameter \<open>members\<close>.
\<close>

definition Widget_ctor ::
  "window \<Rightarrow> widget_data option \<Rightarrow> vec \<Rightarrow> widget_data \<Rightarrow> widget_data \<times> window" where
  "Widget_ctor win parent defaultExtent members =
     (let w = members\<lparr>elevation := (case parent of Some p \<Rightarrow> elevation p + 1 | None \<Rightarrow> 0),
                      enabled := True\<rparr>;
          w = w\<lparr>minimumExtent := defaultExtent\<rparr>;
          (h, win) = addConstraint win
             (Constraint (wid w) Width GreaterEq (vec_width (minimumExtent w)) required);
          w = w\<lparr>minimumWidthConstraint := h\<rparr>;
          (h, win) = addConstraint win
             (Constraint (wid w) Height GreaterEq (vec_height (minimumExtent w)) required);
          w = w\<lparr>minimumHeightConstraint := h\<rparr>;
          w = w\<lparr>preferedExtent := defaultExtent\<rparr>;
          (h, win) = addConstraint win
             (Constraint (wid w) Width GreaterEq (vec_width (preferedExtent w)) strong);
          w = w\<lparr>preferedWidthConstraint := h\<rparr>;
          (h, win) = addConstraint win
             (Constraint (wid w) Height GreaterEq (vec_height (preferedExtent w)) strong);
          w = w\<lparr>preferedHeightConstraint := h\<rparr>
      in (w, win))"





text \<open>
  \<open>Widget::setFixedExtent\<close>. Modelled from the spec: the macro \<open>ttauri_assert\<close> is not
  part of the source files; the spec calls a violated precondition a fatal failure that
  is not recoverable, so a failing assertion ends the call (the function is \<open>noexcept\<close>)
  and the model returns the error instead of a state.
\<close>

datatype error = AssertionFailure

definition setFixedExtent_steps ::
  "vec \<Rightarrow> widget_data \<Rightarrow> window \<Rightarrow> (widget_data \<times> window) list" where
  "setFixedExtent_steps newFixedExtent w win =
     (let s0 = (w, win);
          s1 = (let (w, win) = s0 in
                if vec_width (fixedExtent w) \<noteq> 0
                then (w, removeConstraint win (fixedWidthConstraint w)) else (w, win));
          s2 = (let (w, win) = s1 in
                if vec_height (fixedExtent w) \<noteq> 0
                then (w, removeConstraint win (fixedHeightConstraint w)) else (w, win));
          s3 = (let (w, win) = s2 in (w\<lparr>fixedExtent := newFixedExtent\<rparr>, win));
          s4 = (let (w, win) = s3 in
                if vec_width (fixedExtent w) \<noteq> 0
                then (let (h, win) = addConstraint win
                        (Constraint (wid w) Width Equal (vec_width (fixedExtent w)) required)
                      in (w\<lparr>fixedWidthConstraint := h\<rparr>, win))
                else (w, win));
          s5 = (let (w, win) = s4 in
                if vec_height (fixedExtent w) \<noteq> 0
                then (let (h, win) = addConstraint win
                        (Constraint (wid w) Height Equal (vec_height (fixedExtent w)) required)
                      in (w\<lparr>fixedHeightConstraint := h\<rparr>, win))
                else (w, win))
      in [s0, s1, s2, s3, s4, s5])"

definition setFixedExtent ::
  "vec \<Rightarrow> widget_data \<Rightarrow> window \<Rightarrow> error + widget_data \<times> window" where
  "setFixedExtent newFixedExtent w win =
     (if \<not> (vec_width newFixedExtent = 0 \<or> vec_width newFixedExtent \<ge> vec_width (minimumExtent w))
      then Inl AssertionFailure
      else if \<not> (vec_height newFixedExtent = 0
                  \<or> vec_height newFixedExtent \<ge> vec_height (minimumExtent w))
      then Inl AssertionFailure
      else if newFixedExtent \<noteq> fixedExtent w
      then Inr (last (setFixedExtent_steps newFixedExtent w win))
      else Inr (w, win))"

definition setFixedHeight :: "real \<Rightarrow> widget_data \<Rightarrow> window \<Rightarrow> error + widget_data \<times> window" where
  "setFixedHeight h w win = setFixedExtent (0, h) w win"

definition setFixedWidth :: "real \<Rightarrow> widget_data \<Rightarrow> window \<Rightarrow> error + widget_data \<times> window" where
  "setFixedWidth x w win = setFixedExtent (x, 0) w win"

section \<open>The needs tracker\<close>

text \<open>
  \<open>Widget::widthOrHeightValueHasChanged\<close>: compares the solved width and height with the
  cached ones and refreshes the cache (the cache members are \<open>mutable\<close>).
\<close>

definition widthOrHeightValueHasChanged :: "widget_data \<Rightarrow> bool \<times> widget_data" where
  "widthOrHeightValueHasChanged w =
     (let widthValue = width w;
          heightValue = height w;
          changed = False;
          changed = (changed \<or> widthValue \<noteq> widthChangePreviousValue w);
          changed = (changed \<or> heightValue \<noteq> heightChangePreviousValue w)
      in (changed, w\<lparr>widthChangePreviousValue := widthValue,
                       heightChangePreviousValue := heightValue\<rparr>))"

text \<open>
  \<open>Widget::needs\<close>: both flags are read with \<open>exchange(false)\<close>, so they are false
  afterwards; the result is \<open>(int(layout) << 1) | int(redraw)\<close>.
\<close>

definition needs :: "time_point \<Rightarrow> widget_data \<Rightarrow> int \<times> widget_data" where
  "needs displayTimePoint w =
     (let layout = forceLayout w;
          w1 = w\<lparr>forceLayout := False\<rparr>;
          (changed, w2) = widthOrHeightValueHasChanged w1;
          layout = (layout \<or> changed);
          redraw = layout;
          redraw = (redraw \<or> forceRedraw w2);
          w3 = w2\<lparr>forceRedraw := False\<rparr>;
          need = (push_bit 1 (of_bool layout) OR of_bool redraw)
      in (need, w3))"

section \<open>The layout pass\<close>

text \<open>
  Modelled from the spec: \<open>round\<close> on an \<open>aarect\<close> and the setters \<open>setExtent\<close>,
  \<open>setOffsetFromWindow\<close>, \<open>setOffsetFromParent\<close> are declared in headers that are not part
  of the source files. The spec says that the solved values are rounded to the nearest
  device unit and stored as the window rectangle; the rounding is that of \<open>std::round\<close>
  (halves away from zero), the setters are plain assignments, and \<open>z()\<close> is the elevation.
\<close>

definition round_float :: "real \<Rightarrow> real" where
  "round_float v = (if 0 \<le> v then of_int \<lfloor>v + 1 / 2\<rfloor> else of_int \<lceil>v - 1 / 2\<rceil>)"

definition round_aarect :: "aarect \<Rightarrow> aarect" where
  "round_aarect r =
     ((round_float (fst (fst r)), round_float (snd (fst r))),
      (round_float (fst (snd r)), round_float (snd (snd r))))"

definition setExtent :: "vec \<Rightarrow> widget_data \<Rightarrow> widget_data" where
  "setExtent v w = w\<lparr>extent := v\<rparr>"

definition setOffsetFromWindow :: "vec \<Rightarrow> widget_data \<Rightarrow> widget_data" where
  "setOffsetFromWindow v w = w\<lparr>offsetFromWindow := v\<rparr>"

definition setOffsetFromParent :: "vec \<Rightarrow> widget_data \<Rightarrow> widget_data" where
  "setOffsetFromParent v w = w\<lparr>offsetFromParent := v\<rparr>"

definition z :: "widget_data \<Rightarrow> real" where
  "z w = elevation w"

text \<open>
  \<open>numeric_cast<float>\<close> of a \<open>double\<close>: the value is narrowed to the nearest \<open>float\<close>
  (IEEE 754 binary32, 24 bits of precision, ties to the even neighbour). \<open>float_ulp v\<close> is
  the distance between neighbouring \<open>float\<close> values at the magnitude of \<open>v\<close>; below the
  smallest normal exponent \<open>-126\<close> the distance stays that of the subnormal values.
  Values beyond the largest finite \<open>float\<close> are outside the model.
\<close>

definition float_ulp :: "real \<Rightarrow> real" where
  "float_ulp v = 2 powi (max \<lfloor>log 2 \<bar>v\<bar>\<rfloor> (- 126) - 23)"

definition round_ties_even :: "real \<Rightarrow> int" where
  "round_ties_even v =
     (if v - of_int \<lfloor>v\<rfloor> < 1 / 2 then \<lfloor>v\<rfloor>
      else if v - of_int \<lfloor>v\<rfloor> > 1 / 2 then \<lfloor>v\<rfloor> + 1
      else if even \<lfloor>v\<rfloor> then \<lfloor>v\<rfloor> else \<lfloor>v\<rfloor> + 1)"

definition numeric_cast_float :: "real \<Rightarrow> real" where
  "numeric_cast_float v =
     (if v = 0 then 0 else of_int (round_ties_even (v / float_ulp v)) * float_ulp v)"

text \<open>
  \<open>Widget::makeWindowRectangle\<close>: the four solved values, each narrowed to \<open>float\<close>, and
  the rectangle of these rounded.
\<close>

definition makeWindowRectangle :: "widget_data \<Rightarrow> aarect" where
  "makeWindowRectangle w =
     round_aarect
       ((numeric_cast_float (left w), numeric_cast_float (bottom w)),
        (numeric_cast_float (width w), numeric_cast_float (height w)))"

text \<open>
  \<open>Widget::layout\<close>. The member \<open>parent\<close> is a pointer to the owning widget; the model
  passes the parent's members as an argument (\<open>None\<close> for the root).
\<close>

definition layout :: "time_point \<Rightarrow> widget_data option \<Rightarrow> widget_data \<Rightarrow> widget_data" where
  "layout displayTimePoint parent w =
     (let windowRectangle = makeWindowRectangle w;
          w = setExtent (aarect_extent windowRectangle) w;
          w = setOffsetFromWindow (aarect_offset windowRectangle) w;
          w = setOffsetFromParent
                (case parent of
                   Some p \<Rightarrow> vec_sub (aarect_offset windowRectangle) (offsetFromWindow p)
                 | None \<Rightarrow> aarect_offset windowRectangle) w;
          w = w\<lparr>fromWindowTransform :=
                  mat_T (- fst (aarect_offset windowRectangle))
                        (- snd (aarect_offset windowRectangle)) (- z w)\<rparr>;
          w = w\<lparr>toWindowTransform :=
                  mat_T (fst (aarect_offset windowRectangle))
                        (snd (aarect_offset windowRectangle)) (z w)\<rparr>
      in w\<lparr>forceRedraw := True\<rparr>)"

text \<open>
  \<open>Widget::layoutChildren\<close>. \<open>layoutChildren_loop\<close> is the \<open>for\<close> loop over the children of
  the widget with members \<open>this\<close>, with \<open>total_need\<close> as accumulator; it returns the final
  \<open>total_need\<close> and the children as the loop leaves them.
\<close>

fun layoutChildren :: "time_point \<Rightarrow> bool \<Rightarrow> widget \<Rightarrow> int \<times> widget"
  and layoutChildren_loop ::
    "time_point \<Rightarrow> bool \<Rightarrow> widget_data \<Rightarrow> int \<Rightarrow> widget list \<Rightarrow> int \<times> widget list"
where
  "layoutChildren displayTimePoint force (Widget this cs) =
     (let total_need = 0;
          (total_need, cs) = layoutChildren_loop displayTimePoint force this total_need cs
      in (total_need, Widget this cs))"
| "layoutChildren_loop displayTimePoint force this total_need [] = (total_need, [])"
| "layoutChildren_loop displayTimePoint force this total_need (Widget child ccs # rest) =
     (let (child_need, child) = needs displayTimePoint child;
          total_need = total_need OR child_need;
          child = (if force \<or> child_need \<ge> 2
                   then layout displayTimePoint (Some this) child else child);
          (sub_need, child') = layoutChildren displayTimePoint force (Widget child ccs);
          total_need = total_need OR sub_need;
          (total_need, rest) = layoutChildren_loop displayTimePoint force this total_need rest
      in (total_need, child' # rest))"

section \<open>The draw pass\<close>

text \<open>
  Modelled from the spec: \<open>DrawContext\<close>, the theme and the widget methods
  \<open>nestingLevel\<close> and \<open>clippingRectangle\<close> are declared in headers that are not part of the
  source files. The theme is the collaborator with the pure lookups
  \<open>border_color(nesting_level)\<close>, \<open>fill_color(nesting_level)\<close> and \<open>accent_color\<close>; its
  fields carry the prefix \<open>theme_\<close> to keep them apart from the fields of the draw
  context. The nesting level is the elevation as an integer (the elevation grows by
  \<open>1.0\<close> per nesting level), and the clip rectangle of a widget is its window rectangle.
\<close>

record 'c DrawContext =
  clippingRectangle :: aarect
  transform :: mat
  color :: 'c
  fillColor :: 'c

record 'c Theme =
  theme_borderColor :: "int \<Rightarrow> 'c"
  theme_fillColor :: "int \<Rightarrow> 'c"
  theme_accentColor :: 'c

definition nestingLevel :: "widget_data \<Rightarrow> int" where
  "nestingLevel w = \<lfloor>elevation w\<rfloor>"

definition Widget_clippingRectangle :: "widget_data \<Rightarrow> aarect" where
  "Widget_clippingRectangle w = (offsetFromWindow w, extent w)"

text \<open>
  \<open>Widget::draw\<close>. The function draws nothing itself; what can be observed of it are the
  calls \<open>child->draw(childContext, displayTimePoint)\<close>. The model returns these calls in
  the order in which they happen: the child's members and the context it is drawn with,
  followed by the calls made inside that call. \<open>draw_loop\<close> is the \<open>for\<close> loop, with the
  variable \<open>childContext\<close> carried from one iteration to the next.
\<close>

fun draw ::
    "'c Theme \<Rightarrow> 'c DrawContext \<Rightarrow> time_point \<Rightarrow> widget \<Rightarrow> (widget_data \<times> 'c DrawContext) list"
  and draw_loop ::
    "'c Theme \<Rightarrow> 'c DrawContext \<Rightarrow> time_point \<Rightarrow> widget list
       \<Rightarrow> (widget_data \<times> 'c DrawContext) list"
where
  "draw theme drawContext displayTimePoint (Widget this cs) =
     (let childContext = drawContext
      in draw_loop theme childContext displayTimePoint cs)"
| "draw_loop theme childContext displayTimePoint [] = []"
| "draw_loop theme childContext displayTimePoint (Widget child ccs # rest) =
     (let childContext = childContext\<lparr>clippingRectangle := Widget_clippingRectangle child\<rparr>;
          childContext = childContext\<lparr>transform := toWindowTransform child\<rparr>;
          childNestingLevel = nestingLevel child;
          childContext = childContext\<lparr>color := theme_borderColor theme childNestingLevel\<rparr>;
          childContext = childContext\<lparr>fillColor := theme_fillColor theme childNestingLevel\<rparr>;
          childContext =
            (if enabled child then
               (let childContext =
                      (if focus child then childContext\<lparr>color := theme_accentColor theme\<rparr>
                       else if hover child
                       then childContext\<lparr>color := theme_borderColor theme (childNestingLevel + 1)\<rparr>
                       else childContext);
                    childContext =
                      (if hover child
                       then childContext\<lparr>fillColor := theme_fillColor theme (childNestingLevel + 1)\<rparr>
                       else childContext)
                in childContext)
             else
               (let childContext =
                      childContext\<lparr>color := theme_borderColor theme (childNestingLevel - 1)\<rparr>;
                    childContext =
                      childContext\<lparr>fillColor := theme_fillColor theme (childNestingLevel - 1)\<rparr>
                in childContext))
      in (child, childContext) # draw theme childContext displayTimePoint (Widget child ccs)
           @ draw_loop theme childContext displayTimePoint rest)"

section \<open>The hit-test pass\<close>

text \<open>
  Modelled from the spec: \<open>HitBox\<close>, its ordering, \<open>Widget::rectangle\<close> and
  \<open>aarect::contains\<close> are declared in headers that are not part of the source files.
  A hit box is empty or names a widget and its elevation; the ordering key is the
  elevation, and the empty hit box is below every other one. \<open>std::max(a, b)\<close> is \<open>b\<close>
  when \<open>a < b\<close> and \<open>a\<close> otherwise. The rectangle of a widget is its extent at the
  origin of its own coordinate system, and it contains its border.
\<close>

datatype HitBox = HitBox_empty | HitBox (hb_widget: nat) (hb_elevation: real)

fun HitBox_less :: "HitBox \<Rightarrow> HitBox \<Rightarrow> bool" where
  "HitBox_less HitBox_empty HitBox_empty = False"
| "HitBox_less HitBox_empty (HitBox b eb) = True"
| "HitBox_less (HitBox a ea) HitBox_empty = False"
| "HitBox_less (HitBox a ea) (HitBox b eb) = (ea < eb)"

definition HitBox_max :: "HitBox \<Rightarrow> HitBox \<Rightarrow> HitBox" where
  "HitBox_max a b = (if HitBox_less a b then b else a)"

definition rectangle :: "widget_data \<Rightarrow> aarect" where
  "rectangle w = ((0, 0), extent w)"

definition contains :: "aarect \<Rightarrow> vec \<Rightarrow> bool" where
  "contains r p =
     (fst (fst r) \<le> fst p \<and> fst p \<le> fst (fst r) + fst (snd r) \<and>
      snd (fst r) \<le> snd p \<and> snd p \<le> snd (fst r) + snd (snd r))"

text \<open>\<open>Widget::hitBoxTest\<close>; \<open>hitBoxTest_loop\<close> is its \<open>for\<close> loop with the variable \<open>r\<close>.\<close>

fun hitBoxTest :: "widget \<Rightarrow> vec \<Rightarrow> HitBox"
  and hitBoxTest_loop :: "HitBox \<Rightarrow> widget list \<Rightarrow> vec \<Rightarrow> HitBox"
where
  "hitBoxTest (Widget this cs) position =
     (let r = (if contains (rectangle this) position
               then HitBox (wid this) (elevation this) else HitBox_empty)
      in hitBoxTest_loop r cs position)"
| "hitBoxTest_loop r [] position = r"
| "hitBoxTest_loop r (child # rest) position =
     hitBoxTest_loop
       (HitBox_max r (hitBoxTest child (vec_sub position (offsetFromParent (wdata child)))))
       rest position"

section \<open>Notions used to state the properties\<close>

text \<open>The members of all proper descendants of a widget, in the order of the traversals.\<close>

fun descendants :: "widget \<Rightarrow> widget_data list" where
  "descendants (Widget this cs) = concat (map (\<lambda>c. wdata c # descendants c) cs)"

text \<open>The members of a widget and of all its descendants.\<close>

definition subtree :: "widget \<Rightarrow> widget_data list" where
  "subtree w = wdata w # descendants w"

text \<open>
  The kinds of constraints a widget registers: its minimum constraints are the required
  inequalities, its prefered constraints the inequalities of a softer strength, and its
  fixed constraints the equalities.
\<close>

definition is_minimum :: "nat \<Rightarrow> dimension \<Rightarrow> constraint \<Rightarrow> bool" where
  "is_minimum i dm c =
     (c_widget c = i \<and> c_dimension c = dm \<and> c_relation c = GreaterEq \<and> c_strength c = required)"

definition is_prefered :: "nat \<Rightarrow> dimension \<Rightarrow> constraint \<Rightarrow> bool" where
  "is_prefered i dm c =
     (c_widget c = i \<and> c_dimension c = dm \<and> c_relation c = GreaterEq \<and> c_strength c \<noteq> required)"

definition is_fixed :: "nat \<Rightarrow> dimension \<Rightarrow> constraint \<Rightarrow> bool" where
  "is_fixed i dm c = (c_widget c = i \<and> c_dimension c = dm \<and> c_relation c = Equal)"

text \<open>The solver holds a constraint of the given kind for a dimension of widget \<open>i\<close>.\<close>

definition has_minimum :: "window \<Rightarrow> nat \<Rightarrow> dimension \<Rightarrow> bool" where
  "has_minimum win i dm = list_ex (\<lambda>e. is_minimum i dm (snd e)) (constraints win)"

definition has_prefered :: "window \<Rightarrow> nat \<Rightarrow> dimension \<Rightarrow> bool" where
  "has_prefered win i dm = list_ex (\<lambda>e. is_prefered i dm (snd e)) (constraints win)"

definition has_fixed :: "window \<Rightarrow> nat \<Rightarrow> dimension \<Rightarrow> bool" where
  "has_fixed win i dm = list_ex (\<lambda>e. is_fixed i dm (snd e)) (constraints win)"




text \<open>
  The fixed constraints of the widget that the solver holds are the ones the widget
  keeps a handle of: a fixed constraint for a dimension is registered only while that
  dimension of \<open>fixedExtent\<close> is not zero, and only under the widget's handle.
\<close>

definition fixed_tracked :: "widget_data \<Rightarrow> window \<Rightarrow> bool" where
  "fixed_tracked w win =
     (list_all (\<lambda>e. if is_fixed (wid w) Width (snd e)
                     then vec_width (fixedExtent w) \<noteq> 0 \<and> fst e = fixedWidthConstraint w
                     else True) (constraints win) \<and>
      list_all (\<lambda>e. if is_fixed (wid w) Height (snd e)
                     then vec_height (fixedExtent w) \<noteq> 0 \<and> fst e = fixedHeightConstraint w
                     else True) (constraints win))"


text \<open>
  The recursion policy of the layout pass in the words of the spec, for one child of a
  parent: the child's need is consumed; the child is laid out if the pass is forced or
  its need is at layout level; in either case the same is done to each of its children.
\<close>

fun layoutChild :: "time_point \<Rightarrow> bool \<Rightarrow> widget_data \<Rightarrow> widget \<Rightarrow> widget" where
  "layoutChild t force parent (Widget child ccs) =
     (let child' = (if force \<or> fst (needs t child) \<ge> 2
                    then layout t (Some parent) (snd (needs t child))
                    else snd (needs t child))
      in Widget child' (map (layoutChild t force child') ccs))"

text \<open>The window rectangle of a widget as the layout pass stores it.\<close>

definition windowRectangle :: "widget_data \<Rightarrow> aarect" where
  "windowRectangle w = (offsetFromWindow w, extent w)"

text \<open>
  The candidates of a hit test: the widget and its descendants whose rectangle contains
  the position, with the position translated by each child's offset from its parent.
\<close>

fun hits :: "widget \<Rightarrow> vec \<Rightarrow> (nat \<times> real) list" where
  "hits (Widget this cs) position =
     (if contains (rectangle this) position then [(wid this, elevation this)] else [])
     @ concat (map (\<lambda>c. hits c (vec_sub position (offsetFromParent (wdata c)))) cs)"


text \<open>The needs that a layout pass on a widget observes: one for each proper descendant.\<close>

definition observed_needs :: "time_point \<Rightarrow> widget \<Rightarrow> int list" where
  "observed_needs t w = map (\<lambda>d. fst (needs t d)) (descendants w)"

text \<open>The condition under which the pass lays a widget out.\<close>

definition laid_out :: "time_point \<Rightarrow> bool \<Rightarrow> widget_data \<Rightarrow> bool" where
  "laid_out t force d = (force \<or> 2 \<le> fst (needs t d))"

text \<open>
  A widget is settled when \<open>forceLayout\<close> is not set and the cached width and height are
  the solved ones; it has no needs when both flags are false.
\<close>

definition settled :: "widget_data \<Rightarrow> bool" where
  "settled d = (\<not> forceLayout d \<and> width d = widthChangePreviousValue d \<and>
                height d = heightChangePreviousValue d)"

definition no_needs :: "widget_data \<Rightarrow> bool" where
  "no_needs d = (\<not> forceLayout d \<and> \<not> forceRedraw d)"

text \<open>What a layout pass leaves in a widget \<open>d'\<close> that it has visited as \<open>d\<close>.\<close>

definition visited :: "time_point \<Rightarrow> bool \<Rightarrow> widget_data \<Rightarrow> widget_data \<Rightarrow> bool" where
  "visited t force d d' =
     (wid d' = wid d \<and> \<not> forceLayout d' \<and>
      forceRedraw d' = laid_out t force d \<and>
      windowRectangle d' =
        (if laid_out t force d then makeWindowRectangle d else windowRectangle d) \<and>
      settled d' \<and> makeWindowRectangle d' = makeWindowRectangle d)"

text \<open>
  A draw call has the disabled style when its widget is enabled or its colours are the
  theme's colours one nesting level below the widget's.
\<close>

definition disabled_style :: "'c Theme \<Rightarrow> widget_data \<times> 'c DrawContext \<Rightarrow> bool" where
  "disabled_style theme call =
     (if enabled (fst call) then True
      else color (snd call) = theme_borderColor theme (nestingLevel (fst call) - 1) \<and>
           fillColor (snd call) = theme_fillColor theme (nestingLevel (fst call) - 1))"

text \<open>The maximum of a list of candidates, taken from left to right as the loop does.\<close>

definition best :: "(nat \<times> real) list \<Rightarrow> HitBox" where
  "best xs = foldl HitBox_max HitBox_empty (map (\<lambda>x. HitBox (fst x) (snd x)) xs)"

section \<open>Example data\<close>

text \<open>
  An object with all members zero, an empty solver, and a small tree: a root of extent
  \<open>100 \<times> 100\<close> with the children \<open>A\<close> (elevation 1, the only one with a child of its own)
  and \<open>B\<close> (elevation 2), which overlap in the square from \<open>(20, 20)\<close> to \<open>(50, 50)\<close>.
\<close>

definition members0 :: widget_data where
  "members0 =
     \<lparr>wid = 0, elevation = 0, enabled = False, hover = False, focus = False,
      minimumExtent = (0, 0), preferedExtent = (0, 0), fixedExtent = (0, 0),
      minimumWidthConstraint = 0, minimumHeightConstraint = 0,
      preferedWidthConstraint = 0, preferedHeightConstraint = 0,
      fixedWidthConstraint = 0, fixedHeightConstraint = 0,
      left = 0, bottom = 0, width = 0, height = 0,
      widthChangePreviousValue = 0, heightChangePreviousValue = 0,
      forceLayout = False, forceRedraw = False,
      extent = (0, 0), offsetFromWindow = (0, 0), offsetFromParent = (0, 0),
      fromWindowTransform = mat_T 0 0 0, toWindowTransform = mat_T 0 0 0\<rparr>"

definition window0 :: window where
  "window0 = \<lparr>constraints = [], nextHandle = 0\<rparr>"

definition leaf_data :: widget_data where
  "leaf_data =
     members0\<lparr>wid := 4, elevation := 2, enabled := True, forceLayout := True,
              left := 15, bottom := 15, width := 5, height := 5\<rparr>"

definition A_data :: widget_data where
  "A_data =
     members0\<lparr>wid := 2, elevation := 1, enabled := True,
              left := 10, bottom := 10, width := 40, height := 40,
              widthChangePreviousValue := 40, heightChangePreviousValue := 40,
              extent := (40, 40), offsetFromWindow := (10, 10), offsetFromParent := (10, 10)\<rparr>"

definition B_data :: widget_data where
  "B_data =
     members0\<lparr>wid := 3, elevation := 2, enabled := False, hover := True,
              left := 20, bottom := 20, width := 60, height := 60,
              widthChangePreviousValue := 60, heightChangePreviousValue := 60,
              forceRedraw := True,
              extent := (60, 60), offsetFromWindow := (20, 20), offsetFromParent := (20, 20)\<rparr>"

definition root_data :: widget_data where
  "root_data =
     members0\<lparr>wid := 1, elevation := 0, enabled := True,
              width := 100, height := 100,
              widthChangePreviousValue := 100, heightChangePreviousValue := 100,
              extent := (100, 100)\<rparr>"

definition example_tree :: widget where
  "example_tree =
     Widget root_data [Widget A_data [Widget leaf_data []], Widget B_data []]"

text \<open>The same tree when the root has been laid out by a call of \<open>layout\<close>.\<close>

definition laid_out_root_tree :: widget where
  "laid_out_root_tree =
     Widget (layout 0 None root_data) [Widget A_data [Widget leaf_data []], Widget B_data []]"

text \<open>
  A widget whose size is pinned by a fixed extent of \<open>100 \<times> 50\<close>, with the six
  constraints it has registered and solved values that satisfy all of them.
\<close>

definition pinned_widget :: widget_data where
  "pinned_widget =
     members0\<lparr>wid := 1, enabled := True,
              minimumExtent := (10, 10), preferedExtent := (10, 10), fixedExtent := (100, 50),
              minimumWidthConstraint := 0, minimumHeightConstraint := 1,
              preferedWidthConstraint := 2, preferedHeightConstraint := 3,
              fixedWidthConstraint := 4, fixedHeightConstraint := 5,
              width := 100, height := 50,
              widthChangePreviousValue := 100, heightChangePreviousValue := 50,
              extent := (100, 50)\<rparr>"

definition pinned_window :: window where
  "pinned_window =
     \<lparr>constraints =
        [(0, Constraint 1 Width GreaterEq 10 required),
         (1, Constraint 1 Height GreaterEq 10 required),
         (2, Constraint 1 Width GreaterEq 10 strong),
         (3, Constraint 1 Height GreaterEq 10 strong),
         (4, Constraint 1 Width Equal 100 required),
         (5, Constraint 1 Height Equal 50 required)],
      nextHandle = 6\<rparr>"

text \<open>A theme whose colours are numbers, and a draw context.\<close>

definition example_theme :: "int Theme" where
  "example_theme =
     \<lparr>theme_borderColor = (\<lambda>level. level), theme_fillColor = (\<lambda>level. 100 + level),
      theme_accentColor = 999\<rparr>"

definition example_context :: "int DrawContext" where
  "example_context =
     \<lparr>clippingRectangle = ((0, 0), (100, 100)), transform = mat_T 0 0 0,
      color = 0, fillColor = 0\<rparr>"

section \<open>Properties of the needs tracker\<close>

lemma needs_value:
  "fst (needs t w) =
     (if forceLayout w \<or> width w \<noteq> widthChangePreviousValue w
          \<or> height w \<noteq> heightChangePreviousValue w then 3
      else if forceRedraw w then 1 else 0)"
  by (simp add: needs_def widthOrHeightValueHasChanged_def Let_def)

lemma needs_state:
  "snd (needs t w) =
     w\<lparr>forceLayout := False, widthChangePreviousValue := width w,
       heightChangePreviousValue := height w, forceRedraw := False\<rparr>"
  by (simp add: needs_def widthOrHeightValueHasChanged_def Let_def)

text \<open>
  Claim C6. Every result of \<open>needs\<close> is 0, 1 or 3, never 2: the redraw bit (bit 0) is set
  in the result whenever the layout bit (bit 1) is set.
\<close>

theorem needs_layout_implies_redraw:
  "fst (needs t w) \<in> {0, 1, 3} \<and> fst (needs t w) \<noteq> 2 \<and>
   (bit (fst (needs t w)) 1 \<longrightarrow> bit (fst (needs t w)) 0)"
proof -
  have "fst (needs t w) = 0 \<or> fst (needs t w) = 1 \<or> fst (needs t w) = 3"
    by (simp add: needs_value)
  moreover have "\<not> bit (0::int) 1" "\<not> bit (1::int) 1" "bit (3::int) 0"
    by (simp_all add: bit_numeral_simps)
  ultimately show ?thesis
    by auto
qed

theorem needs_layout_implies_redraw_witness:
  "fst (needs 0 leaf_data) \<in> {0, 1, 3} \<and> fst (needs 0 leaf_data) \<noteq> 2 \<and>
   bit (fst (needs 0 leaf_data)) 1 \<and> bit (fst (needs 0 leaf_data)) 0"
proof -
  have "fst (needs 0 leaf_data) = 3"
    by (simp add: needs_value leaf_data_def members0_def)
  moreover have "bit (3::int) 1"
    by (simp add: bit_numeral_simps)
  ultimately show ?thesis
    using needs_layout_implies_redraw [of 0 leaf_data] by simp
qed

section \<open>Properties of the extent model\<close>









text \<open>
  Claim C8. \<open>setFixedExtent\<close> ends in an assertion failure exactly when a fixed dimension
  that is not zero is below the minimum dimension; when every non-zero fixed dimension
  is at least the minimum dimension, no assertion fires and the call returns.
\<close>

theorem setFixedExtent_precondition:
  "(setFixedExtent newFixedExtent w win = Inl AssertionFailure) =
     (\<not> ((vec_width newFixedExtent = 0
           \<or> vec_width newFixedExtent \<ge> vec_width (minimumExtent w)) \<and>
          (vec_height newFixedExtent = 0
           \<or> vec_height newFixedExtent \<ge> vec_height (minimumExtent w))))
   \<and>
   ((vec_width newFixedExtent = 0
       \<or> vec_width newFixedExtent \<ge> vec_width (minimumExtent w)) \<and>
    (vec_height newFixedExtent = 0
       \<or> vec_height newFixedExtent \<ge> vec_height (minimumExtent w))
    \<longrightarrow> (\<exists>s. setFixedExtent newFixedExtent w win = Inr s))"
  by (simp add: setFixedExtent_def)

theorem setFixedExtent_precondition_witness:
  "vec_width (200, 0) \<ge> vec_width (minimumExtent pinned_widget) \<and>
   vec_height (200, 0) = 0 \<and>
   (\<exists>s. setFixedExtent (200, 0) pinned_widget pinned_window = Inr s) \<and>
   setFixedExtent (200, 0) pinned_widget pinned_window \<noteq> Inl AssertionFailure \<and>
   \<not> vec_width (5, 0) \<ge> vec_width (minimumExtent pinned_widget) \<and>
   setFixedExtent (5, 0) pinned_widget pinned_window = Inl AssertionFailure"
  using setFixedExtent_precondition [of "(200, 0)" pinned_widget pinned_window]
    setFixedExtent_precondition [of "(5, 0)" pinned_widget pinned_window]
  by (simp add: vec_width_def vec_height_def pinned_widget_def members0_def)

subsection \<open>The fixed constraints\<close>

lemma setFixedExtent_steps_nth:
  "setFixedExtent_steps v w win ! 2 =
     (w, win\<lparr>constraints :=
          filter (\<lambda>e. (vec_width (fixedExtent w) = 0 \<or> fst e \<noteq> fixedWidthConstraint w) \<and>
                      (vec_height (fixedExtent w) = 0 \<or> fst e \<noteq> fixedHeightConstraint w))
            (constraints win)\<rparr>)"
  by (auto simp add: setFixedExtent_steps_def Let_def removeConstraint_def)

lemma tracked_removed:
  assumes "fixed_tracked w win"
  shows "\<not> list_ex (\<lambda>e. is_fixed (wid w) dm (snd e))
            (filter (\<lambda>e. (vec_width (fixedExtent w) = 0 \<or> fst e \<noteq> fixedWidthConstraint w) \<and>
                      (vec_height (fixedExtent w) = 0 \<or> fst e \<noteq> fixedHeightConstraint w))
            (constraints win))"
  using assms
  by (cases dm) (auto simp add: fixed_tracked_def list_ex_iff list_all_iff split: if_splits)


lemma setFixedExtent_steps_final:
  "last (setFixedExtent_steps v w win) =
     (let (w2, win2) = setFixedExtent_steps v w win ! 2;
          w3 = w2\<lparr>fixedExtent := v\<rparr>;
          (w4, win4) = (if vec_width v \<noteq> 0
             then (w3\<lparr>fixedWidthConstraint := nextHandle win2\<rparr>,
                   win2\<lparr>constraints := constraints win2 @ [(nextHandle win2, Constraint (wid w) Width Equal (vec_width v) required)],
                        nextHandle := Suc (nextHandle win2)\<rparr>)
             else (w3, win2))
      in (if vec_height v \<noteq> 0
             then (w4\<lparr>fixedHeightConstraint := nextHandle win4\<rparr>,
                   win4\<lparr>constraints := constraints win4 @ [(nextHandle win4, Constraint (wid w) Height Equal (vec_height v) required)],
                        nextHandle := Suc (nextHandle win4)\<rparr>)
             else (w4, win4)))"
  by (simp add: setFixedExtent_steps_def Let_def addConstraint_def split_def)

lemma setFixedExtent_steps_has_fixed:
  assumes "fixed_tracked w win"
  shows "has_fixed (snd (last (setFixedExtent_steps v w win))) (wid w) Width = (vec_width v \<noteq> 0)"
    and "has_fixed (snd (last (setFixedExtent_steps v w win))) (wid w) Height = (vec_height v \<noteq> 0)"
    and "fixedExtent (fst (last (setFixedExtent_steps v w win))) = v"
    and "wid (fst (last (setFixedExtent_steps v w win))) = wid w"
  using tracked_removed [OF assms, of Width] tracked_removed [OF assms, of Height]
  by (auto simp add: setFixedExtent_steps_final setFixedExtent_steps_nth has_fixed_def
      is_fixed_def Let_def split_def)


lemma untracked_zero:
  "fixed_tracked w win \<Longrightarrow> vec_height (fixedExtent w) = 0 \<Longrightarrow> \<not> has_fixed win (wid w) Height"
  "fixed_tracked w win \<Longrightarrow> vec_width (fixedExtent w) = 0 \<Longrightarrow> \<not> has_fixed win (wid w) Width"
  by (auto simp add: fixed_tracked_def has_fixed_def list_ex_iff list_all_iff split: if_splits)

text \<open>
  Claim C10. \<open>setFixedWidth x\<close> is \<open>setFixedExtent (x, 0)\<close> and \<open>setFixedHeight h\<close> is
  \<open>setFixedExtent (0, h)\<close>. For a widget whose fixed constraints in the solver are the
  ones it keeps a handle of, a call of \<open>setFixedWidth\<close> that returns leaves the fixed
  extent at \<open>(x, 0)\<close> and the solver without any fixed-height constraint of the widget;
  likewise \<open>setFixedHeight\<close> leaves no fixed-width constraint.
\<close>

theorem setFixedWidth_drops_fixed_height:
  "setFixedWidth x w win = setFixedExtent (x, 0) w win \<and>
   setFixedHeight h w win = setFixedExtent (0, h) w win \<and>
   (fixed_tracked w win \<longrightarrow>
      (\<forall>s. setFixedWidth x w win = Inr s \<longrightarrow>
         fixedExtent (fst s) = (x, 0) \<and> \<not> has_fixed (snd s) (wid w) Height) \<and>
      (\<forall>s. setFixedHeight h w win = Inr s \<longrightarrow>
         fixedExtent (fst s) = (0, h) \<and> \<not> has_fixed (snd s) (wid w) Width))"
proof -
  have "fixedExtent (fst s) = v \<and> (vec_height v = 0 \<longrightarrow> \<not> has_fixed (snd s) (wid w) Height)
       \<and> (vec_width v = 0 \<longrightarrow> \<not> has_fixed (snd s) (wid w) Width)"
    if "fixed_tracked w win" "setFixedExtent v w win = Inr s" for v s
  proof (cases "v = fixedExtent w")
    case True
    with that have "s = (w, win)"
      by (simp add: setFixedExtent_def split: if_splits)
    with True that(1) show ?thesis
      by (auto simp add: untracked_zero)
  next
    case False
    with that have "s = last (setFixedExtent_steps v w win)"
      by (simp add: setFixedExtent_def split: if_splits)
    with that(1) show ?thesis
      by (simp add: setFixedExtent_steps_has_fixed)
  qed
  from this [of "(x, 0)"] this [of "(0, h)"] show ?thesis
    by (simp add: setFixedWidth_def setFixedHeight_def vec_width_def vec_height_def)
qed

theorem setFixedWidth_drops_fixed_height_witness:
  "fixed_tracked pinned_widget pinned_window \<and>
   has_fixed pinned_window (wid pinned_widget) Height \<and>
   (\<exists>s. setFixedWidth 200 pinned_widget pinned_window = Inr s \<and>
        fixedExtent (fst s) = (200, 0) \<and> \<not> has_fixed (snd s) (wid pinned_widget) Height)"
proof -
  have t: "fixed_tracked pinned_widget pinned_window"
    by (simp add: fixed_tracked_def pinned_widget_def pinned_window_def members0_def
        is_fixed_def vec_width_def vec_height_def)
  have h: "has_fixed pinned_window (wid pinned_widget) Height"
    by (simp add: has_fixed_def pinned_widget_def pinned_window_def members0_def is_fixed_def)
  obtain s where s: "setFixedWidth 200 pinned_widget pinned_window = Inr s"
    by (simp add: setFixedWidth_def setFixedExtent_def pinned_widget_def members0_def
        vec_width_def vec_height_def)
  with t setFixedWidth_drops_fixed_height [of 200 pinned_widget pinned_window]
  have "fixedExtent (fst s) = (200, 0) \<and> \<not> has_fixed (snd s) (wid pinned_widget) Height"
    by blast
  with t h s show ?thesis by blast
qed

section \<open>Properties of the narrowing to \<open>float\<close>\<close>

text \<open>An integer below \<open>2^24\<close> in magnitude is a \<open>float\<close>: narrowing leaves it as it is.\<close>

lemma round_ties_even_int: "round_ties_even (of_int m) = m"
  by (simp add: round_ties_even_def)

lemma numeric_cast_float_int:
  assumes "\<bar>n\<bar> < 2 ^ 24"
  shows "numeric_cast_float (of_int n) = of_int n"
proof (cases "n = 0")
  case True
  then show ?thesis by (simp add: numeric_cast_float_def)
next
  case False
  let ?x = "of_int n :: real"
  let ?e = "\<lfloor>log 2 \<bar>?x\<bar>\<rfloor>"
  have "1 \<le> \<bar>n\<bar>"
    using False by simp
  then have "(1::real) \<le> of_int \<bar>n\<bar>"
    by (simp only: of_int_1_le_iff)
  then have x1: "1 \<le> \<bar>?x\<bar>"
    by simp
  have "(of_int \<bar>n\<bar> :: real) < of_int (2 ^ 24)"
    using assms by (simp only: of_int_less_iff)
  then have x2: "\<bar>?x\<bar> < 2 ^ 24"
    by simp
  have "0 \<le> log 2 \<bar>?x\<bar>"
    using x1 by simp
  then have e0: "0 \<le> ?e" by simp
  have "log 2 \<bar>?x\<bar> < log 2 ((2::real) ^ 24)"
    using x1 x2 by (subst log_less_cancel_iff) simp_all
  moreover have "log 2 ((2::real) ^ 24) = 24"
    using log_nat_power [of 2 2 24] by simp
  ultimately have "log 2 \<bar>?x\<bar> < 24"
    by (simp only:)
  then have e1: "?e \<le> 23"
    by (simp add: floor_le_iff)
  define k where "k = nat (23 - ?e)"
  have ulp: "float_ulp ?x = inverse (2 ^ k)"
  proof -
    have "max ?e (- 126) - 23 = - int k"
      using e0 e1 by (simp add: k_def)
    then show ?thesis
      by (simp add: float_ulp_def power_int_minus)
  qed
  have "?x / float_ulp ?x = of_int (n * 2 ^ k)"
    by (simp add: ulp divide_inverse)
  then have "round_ties_even (?x / float_ulp ?x) = n * 2 ^ k"
    by (simp only: round_ties_even_int)
  then show ?thesis
    using False by (simp add: numeric_cast_float_def ulp)
qed

text \<open>Above \<open>2^24\<close> the narrowing rounds: \<open>2^24 + 1\<close> is a tie and goes to the even \<open>2^24\<close>.\<close>

lemma floor_log2:
  assumes "2 ^ e \<le> \<bar>v\<bar>" "\<bar>v\<bar> < 2 ^ Suc e"
  shows "\<lfloor>log 2 \<bar>v\<bar>\<rfloor> = int e"
proof -
  have p: "0 < \<bar>v\<bar>"
    using assms(1) by (smt (verit) zero_less_power)
  have "log 2 ((2::real) ^ e) \<le> log 2 \<bar>v\<bar>"
    using assms(1) p by (subst log_le_cancel_iff) simp_all
  moreover have "log 2 \<bar>v\<bar> < log 2 ((2::real) ^ Suc e)"
    using assms(2) p by (subst log_less_cancel_iff) simp_all
  moreover have l: "log 2 ((2::real) ^ n) = real n" for n
    using log_nat_power [of 2 2 n] by simp
  ultimately have "real e \<le> log 2 \<bar>v\<bar>" "log 2 \<bar>v\<bar> < real (Suc e)"
    by (simp_all only: l)
  then show ?thesis
    by (simp add: floor_eq_iff)
qed

lemma numeric_cast_float_narrows: "numeric_cast_float 16777217 = 16777216"
proof -
  have "\<lfloor>log 2 \<bar>16777217::real\<bar>\<rfloor> = int 24"
    by (rule floor_log2) simp_all
  then have u: "float_ulp 16777217 = 2"
    by (simp add: float_ulp_def)
  have "\<lfloor>16777217 / 2 :: real\<rfloor> = 8388608"
    by (simp add: floor_eq_iff)
  then have "round_ties_even (16777217 / 2) = 8388608"
    by (simp add: round_ties_even_def)
  then show ?thesis
    by (simp add: numeric_cast_float_def u)
qed

lemma makeWindowRectangle_examples:
  "makeWindowRectangle A_data = ((10, 10), (40, 40))"
  "makeWindowRectangle leaf_data = ((15, 15), (5, 5))"
  "makeWindowRectangle B_data = ((20, 20), (60, 60))"
proof -
  have nc: "numeric_cast_float 10 = 10" "numeric_cast_float 40 = 40"
    "numeric_cast_float 15 = 15" "numeric_cast_float 5 = 5"
    "numeric_cast_float 20 = 20" "numeric_cast_float 60 = 60"
    using numeric_cast_float_int [of 10] numeric_cast_float_int [of 40]
      numeric_cast_float_int [of 15] numeric_cast_float_int [of 5]
      numeric_cast_float_int [of 20] numeric_cast_float_int [of 60]
    by simp_all
  show "makeWindowRectangle A_data = ((10, 10), (40, 40))"
    "makeWindowRectangle leaf_data = ((15, 15), (5, 5))"
    "makeWindowRectangle B_data = ((20, 20), (60, 60))"
    by (simp_all add: makeWindowRectangle_def round_aarect_def round_float_def nc
        A_data_def leaf_data_def B_data_def members0_def)
qed

section \<open>Properties of the layout pass\<close>

lemma foldl_or_init: "foldl (OR) (a::int) xs = a OR foldl (OR) 0 xs"
proof (induction xs arbitrary: a)
  case Nil
  show ?case by simp
next
  case (Cons x xs)
  show ?case
    by (simp add: Cons.IH [of "a OR x"] Cons.IH [of x] or.assoc)
qed

lemma foldl_or_zero: "\<forall>x \<in> set xs. x = 0 \<Longrightarrow> foldl (OR) (0::int) xs = 0"
  by (induction xs) simp_all

lemma layoutChildren_loop_eq:
  assumes "\<And>c d. c \<in> set cs \<Longrightarrow>
     layoutChildren t force (Widget d (children c)) =
       (foldl (OR) 0 (observed_needs t c), Widget d (map (layoutChild t force d) (children c)))"
  shows "layoutChildren_loop t force this tn cs =
     (foldl (OR) tn (concat (map (\<lambda>c. fst (needs t (wdata c)) # observed_needs t c) cs)),
      map (layoutChild t force this) cs)"
  using assms
proof (induction cs arbitrary: tn)
  case Nil
  show ?case by simp
next
  case (Cons c cs)
  obtain child ccs where c: "c = Widget child ccs"
    by (cases c)
  have sub: "layoutChildren t force (Widget d ccs) =
      (foldl (OR) 0 (observed_needs t c), Widget d (map (layoutChild t force d) ccs))" for d
    using Cons.prems [of c d] by (simp add: c)
  have rest: "layoutChildren_loop t force this tn' cs =
     (foldl (OR) tn' (concat (map (\<lambda>c. fst (needs t (wdata c)) # observed_needs t c) cs)),
      map (layoutChild t force this) cs)" for tn'
    using Cons.prems by (intro Cons.IH) simp
  let ?n = "fst (needs t child)"
  let ?child2 = "if force \<or> 2 \<le> ?n then layout t (Some this) (snd (needs t child))
                 else snd (needs t child)"
  let ?rest = "concat (map (\<lambda>c. fst (needs t (wdata c)) # observed_needs t c) cs)"
  have "layoutChildren_loop t force this tn (c # cs) =
      (let (sub_need, child') = layoutChildren t force (Widget ?child2 ccs);
           (tn', rest') = layoutChildren_loop t force this ((tn OR ?n) OR sub_need) cs
       in (tn', child' # rest'))"
    by (simp add: c Let_def split_def del: layoutChildren.simps)
  also have "\<dots> =
      (foldl (OR) ((tn OR ?n) OR foldl (OR) 0 (observed_needs t c)) ?rest,
       Widget ?child2 (map (layoutChild t force ?child2) ccs) # map (layoutChild t force this) cs)"
    by (simp add: sub rest del: layoutChildren.simps)
  also have "(tn OR ?n) OR foldl (OR) 0 (observed_needs t c)
      = foldl (OR) (tn OR ?n) (observed_needs t c)"
    by (rule foldl_or_init [symmetric])
  finally show ?case
    by (simp add: c Let_def)
qed

lemma layoutChildren_eq_any:
  "layoutChildren t force (Widget d (children w)) =
     (foldl (OR) 0 (observed_needs t w), Widget d (map (layoutChild t force d) (children w)))"
proof (induction w arbitrary: d)
  case (Widget this cs)
  have "layoutChildren_loop t force d 0 cs =
     (foldl (OR) 0 (concat (map (\<lambda>c. fst (needs t (wdata c)) # observed_needs t c) cs)),
      map (layoutChild t force d) cs)"
    by (rule layoutChildren_loop_eq) (rule Widget.IH)
  then show ?case
    by (simp add: observed_needs_def map_concat comp_def)
qed

lemma layoutChildren_eq:
  "layoutChildren t force w =
     (foldl (OR) 0 (observed_needs t w),
      Widget (wdata w) (map (layoutChild t force (wdata w)) (children w)))"
  using layoutChildren_eq_any [of t force "wdata w" w] by simp

lemma layoutChild_data:
  "wdata (layoutChild t force p c) =
     (if laid_out t force (wdata c) then layout t (Some p) (snd (needs t (wdata c)))
      else snd (needs t (wdata c)))"
  by (cases c) (simp add: Let_def laid_out_def)

lemma layout_fields:
  "forceRedraw (layout t p d) = True"
  "windowRectangle (layout t p d) = makeWindowRectangle d"
  "wid (layout t p d) = wid d"
  "forceLayout (layout t p d) = forceLayout d"
  "width (layout t p d) = width d" "height (layout t p d) = height d"
  "widthChangePreviousValue (layout t p d) = widthChangePreviousValue d"
  "heightChangePreviousValue (layout t p d) = heightChangePreviousValue d"
  "left (layout t p d) = left d" "bottom (layout t p d) = bottom d"
  by (simp_all add: layout_def Let_def setExtent_def setOffsetFromWindow_def
      setOffsetFromParent_def windowRectangle_def makeWindowRectangle_def
      aarect_extent_def aarect_offset_def)

lemma needs_fields:
  "forceRedraw (snd (needs t d)) = False"
  "forceLayout (snd (needs t d)) = False"
  "windowRectangle (snd (needs t d)) = windowRectangle d"
  "wid (snd (needs t d)) = wid d"
  "width (snd (needs t d)) = width d" "height (snd (needs t d)) = height d"
  "widthChangePreviousValue (snd (needs t d)) = width d"
  "heightChangePreviousValue (snd (needs t d)) = height d"
  "left (snd (needs t d)) = left d" "bottom (snd (needs t d)) = bottom d"
  "makeWindowRectangle (snd (needs t d)) = makeWindowRectangle d"
  by (simp_all add: needs_state windowRectangle_def makeWindowRectangle_def)

lemma layoutChild_visited:
  "visited t force (wdata c) (wdata (layoutChild t force p c))"
  by (simp add: layoutChild_data visited_def layout_fields needs_fields settled_def
      makeWindowRectangle_def)

lemma list_all2_concat_map:
  "(\<And>c. c \<in> set cs \<Longrightarrow> list_all2 R (f c) (g c)) \<Longrightarrow>
   list_all2 R (concat (map f cs)) (concat (map g cs))"
  by (induction cs) (simp_all add: list_all2_appendI)

lemma descendants_layoutChild:
  "list_all2 (visited t force) (wdata c # descendants c)
     (wdata (layoutChild t force p c) # descendants (layoutChild t force p c))"
proof (induction c arbitrary: p)
  case (Widget child ccs)
  have "list_all2 (visited t force)
          (concat (map (\<lambda>c. wdata c # descendants c) ccs))
          (concat (map (\<lambda>c. wdata (layoutChild t force q c)
                              # descendants (layoutChild t force q c)) ccs))" for q
    by (rule list_all2_concat_map) (rule Widget.IH)
  then show ?case
    using layoutChild_visited [of t force "Widget child ccs" p]
    by (simp add: Let_def comp_def)
qed

lemma descendants_layoutChildren:
  "list_all2 (visited t force) (descendants w) (descendants (snd (layoutChildren t force w)))"
proof -
  have "list_all2 (visited t force)
          (concat (map (\<lambda>c. wdata c # descendants c) (children w)))
          (concat (map (\<lambda>c. wdata (layoutChild t force (wdata w) c)
                              # descendants (layoutChild t force (wdata w) c)) (children w)))"
    by (rule list_all2_concat_map) (rule descendants_layoutChild)
  then show ?thesis
    by (cases w) (simp add: layoutChildren_eq comp_def del: layoutChildren.simps)
qed

lemma layoutChildren_descendants:
  "map wid (descendants (snd (layoutChildren t force w))) = map wid (descendants w)"
  "map forceRedraw (descendants (snd (layoutChildren t force w))) =
     map (\<lambda>d. force \<or> 2 \<le> fst (needs t d)) (descendants w)"
  "map windowRectangle (descendants (snd (layoutChildren t force w))) =
     map (\<lambda>d. if force \<or> 2 \<le> fst (needs t d) then makeWindowRectangle d
               else windowRectangle d) (descendants w)"
proof -
  have "list_all2 (\<lambda>d d'. f d' = g d) xs ys \<Longrightarrow> map f ys = map g xs" for f g
    and xs ys :: "widget_data list"
    by (induction rule: list_all2_induct) simp_all
  note to_map = this
  have v: "list_all2 (visited t force) (descendants w)
      (descendants (snd (layoutChildren t force w)))"
    by (rule descendants_layoutChildren)
  show "map wid (descendants (snd (layoutChildren t force w))) = map wid (descendants w)"
    by (rule to_map) (rule list_all2_mono [OF v], simp add: visited_def)
  show "map forceRedraw (descendants (snd (layoutChildren t force w))) =
     map (\<lambda>d. force \<or> 2 \<le> fst (needs t d)) (descendants w)"
    by (rule to_map) (rule list_all2_mono [OF v], simp add: visited_def laid_out_def)
  show "map windowRectangle (descendants (snd (layoutChildren t force w))) =
     map (\<lambda>d. if force \<or> 2 \<le> fst (needs t d) then makeWindowRectangle d
               else windowRectangle d) (descendants w)"
    by (rule to_map) (rule list_all2_mono [OF v], simp add: visited_def laid_out_def)
qed

text \<open>
  Claim C3. A call \<open>layoutChildren t force\<close> on a widget does to each child what the
  recursion policy says (\<open>layoutChild\<close>): the child is laid out exactly when \<open>force\<close> holds
  or the child's own need is at least 2, and the same is done to the child's children
  whether or not the child was laid out. So every proper descendant is visited once, in
  order; it is left with \<open>forceRedraw\<close> set (as \<open>layout\<close> does) and with the rectangle of
  its solved values exactly when \<open>force\<close> holds or its own need is at least 2, and keeps
  its rectangle otherwise. The returned value is the bitwise OR of the needs of all
  proper descendants.
\<close>

theorem layoutChildren_policy:
  "layoutChildren t force w =
     (foldl (OR) 0 (map (\<lambda>d. fst (needs t d)) (descendants w)),
      Widget (wdata w) (map (layoutChild t force (wdata w)) (children w))) \<and>
   map wid (descendants (snd (layoutChildren t force w))) = map wid (descendants w) \<and>
   map forceRedraw (descendants (snd (layoutChildren t force w))) =
     map (\<lambda>d. force \<or> 2 \<le> fst (needs t d)) (descendants w) \<and>
   map windowRectangle (descendants (snd (layoutChildren t force w))) =
     map (\<lambda>d. if force \<or> 2 \<le> fst (needs t d) then makeWindowRectangle d
               else windowRectangle d) (descendants w)"
  using layoutChildren_descendants [of t force w] layoutChildren_eq [of t force w]
  by (simp add: observed_needs_def)

theorem layoutChildren_policy_witness:
  "descendants example_tree = [A_data, leaf_data, B_data] \<and>
   map (\<lambda>d. fst (needs 0 d)) (descendants example_tree) = [0, 3, 1] \<and>
   fst (layoutChildren 0 False example_tree) = 3 \<and>
   map wid (descendants (snd (layoutChildren 0 False example_tree))) = [2, 4, 3] \<and>
   map forceRedraw (descendants (snd (layoutChildren 0 False example_tree)))
     = [False, True, False] \<and>
   map windowRectangle (descendants (snd (layoutChildren 0 False example_tree)))
     = [windowRectangle A_data, ((15, 15), (5, 5)), windowRectangle B_data]"
proof -
  have d: "descendants example_tree = [A_data, leaf_data, B_data]"
    by (simp add: example_tree_def)
  have n: "fst (needs 0 A_data) = 0" "fst (needs 0 leaf_data) = 3" "fst (needs 0 B_data) = 1"
    by (simp_all add: needs_value A_data_def leaf_data_def B_data_def members0_def)
  have i: "wid A_data = 2" "wid leaf_data = 4" "wid B_data = 3"
    by (simp_all add: A_data_def leaf_data_def B_data_def members0_def)
  have r: "makeWindowRectangle leaf_data = ((15, 15), (5, 5))"
    by (rule makeWindowRectangle_examples)
  note p = layoutChildren_policy [of 0 False example_tree]
  have f: "fst (layoutChildren 0 False example_tree) = 3"
    by (simp add: p [THEN conjunct1] d n del: layoutChildren.simps)
  show ?thesis
    using p [THEN conjunct2] f
    by (simp add: d n i r del: layoutChildren.simps)
qed

lemma list_all2_visited_settled:
  "list_all2 (visited t force) xs ys \<Longrightarrow> list_all settled ys"
  by (induction rule: list_all2_induct) (simp_all add: visited_def)

lemma pass_settles:
  "list_all settled (descendants (snd (layoutChildren t force w)))"
  using descendants_layoutChildren by (rule list_all2_visited_settled)

lemma settled_not_laid_out: "settled d \<Longrightarrow> \<not> laid_out t False d"
  by (simp add: settled_def laid_out_def needs_value)

lemma list_all2_visited_rest:
  "list_all2 (visited t False) xs ys \<Longrightarrow> list_all settled xs \<Longrightarrow>
   map windowRectangle ys = map windowRectangle xs \<and> list_all no_needs ys"
  by (induction rule: list_all2_induct)
     (simp_all add: visited_def settled_not_laid_out no_needs_def)

lemma settled_pass:
  assumes "list_all settled (descendants w)"
  shows "map windowRectangle (descendants (snd (layoutChildren t False w)))
           = map windowRectangle (descendants w)"
    and "list_all no_needs (descendants (snd (layoutChildren t False w)))"
  using list_all2_visited_rest [OF descendants_layoutChildren assms] by simp_all

lemma layoutChildren_root: "wdata (snd (layoutChildren t force w)) = wdata w"
  by (simp add: layoutChildren_eq del: layoutChildren.simps)

lemma needs_idle:
  "settled d \<Longrightarrow> no_needs d \<Longrightarrow> needs t d = (0, d)"
  by (simp add: prod_eq_iff needs_value needs_state settled_def no_needs_def)

lemma layoutChild_idle:
  "list_all settled (wdata c # descendants c) \<Longrightarrow>
   list_all no_needs (wdata c # descendants c) \<Longrightarrow> layoutChild t False p c = c"
proof (induction c arbitrary: p)
  case (Widget child ccs)
  have "layoutChild t False q c = c" if "c \<in> set ccs" for c q
    using that Widget.prems by (intro Widget.IH) (auto simp add: list_all_iff)
  then have "map (layoutChild t False q) ccs = ccs" for q
    by (simp add: map_idI)
  with Widget.prems show ?case
    by (simp add: needs_idle)
qed

lemma idle_pass:
  assumes "list_all settled (descendants w)" "list_all no_needs (descendants w)"
  shows "layoutChildren t False w = (0, w)"
proof -
  have "layoutChild t False (wdata w) c = c" if "c \<in> set (children w)" for c
    using that assms by (cases w) (intro layoutChild_idle, auto simp add: list_all_iff)
  then have m: "map (layoutChild t False (wdata w)) (children w) = children w"
    by (simp add: map_idI)
  have "fst (needs t d) = 0" if "d \<in> set (descendants w)" for d
    using that assms by (simp add: needs_idle list_all_iff)
  then have "\<forall>x \<in> set (observed_needs t w). x = 0"
    by (simp add: observed_needs_def)
  then have "foldl (OR) 0 (observed_needs t w) = 0"
    by (rule foldl_or_zero)
  then show ?thesis
    by (simp add: layoutChildren_eq m del: layoutChildren.simps)
qed

text \<open>
  Claim C4, as the code has it. Take the tree left by any layout pass (the initial
  layout, forced or not) and run the pass twice more with \<open>force = false\<close>, leaving the
  solved values and everything else as they are. The first run leaves the window
  rectangle of every widget of the tree as it was and both flags of every proper
  descendant false; the second run returns 0 and changes nothing at all. The members of
  the widget the pass is called on, its two flags among them, are never written:
  \<open>layoutChildren\<close> consumes the needs of the children only.
\<close>

theorem layout_pass_idempotent:
  "map windowRectangle (subtree (snd (layoutChildren t1 False (snd (layoutChildren t0 force w)))))
     = map windowRectangle (subtree (snd (layoutChildren t0 force w))) \<and>
   list_all no_needs
     (descendants (snd (layoutChildren t1 False (snd (layoutChildren t0 force w))))) \<and>
   layoutChildren t2 False (snd (layoutChildren t1 False (snd (layoutChildren t0 force w))))
     = (0, snd (layoutChildren t1 False (snd (layoutChildren t0 force w)))) \<and>
   wdata (snd (layoutChildren t1 False (snd (layoutChildren t0 force w)))) = wdata w"
proof -
  let ?w0 = "snd (layoutChildren t0 force w)"
  let ?w1 = "snd (layoutChildren t1 False ?w0)"
  have s0: "list_all settled (descendants ?w0)"
    by (rule pass_settles)
  have s1: "list_all settled (descendants ?w1)"
    by (rule pass_settles)
  have n1: "list_all no_needs (descendants ?w1)"
    using s0 by (rule settled_pass)
  have r1: "map windowRectangle (subtree ?w1) = map windowRectangle (subtree ?w0)"
    using settled_pass(1) [OF s0] by (simp add: subtree_def layoutChildren_root)
  have "layoutChildren t2 False ?w1 = (0, ?w1)"
    using s1 n1 by (rule idle_pass)
  with n1 r1 show ?thesis
    by (simp add: layoutChildren_root)
qed

theorem layout_pass_idempotent_witness:
  "map windowRectangle (subtree (snd (layoutChildren 0 True example_tree)))
     = [((0, 0), (100, 100)), ((10, 10), (40, 40)), ((15, 15), (5, 5)), ((20, 20), (60, 60))] \<and>
   map forceRedraw (descendants (snd (layoutChildren 0 True example_tree)))
     = [True, True, True] \<and>
   map windowRectangle
     (subtree (snd (layoutChildren 1 False (snd (layoutChildren 0 True example_tree)))))
     = [((0, 0), (100, 100)), ((10, 10), (40, 40)), ((15, 15), (5, 5)), ((20, 20), (60, 60))] \<and>
   list_all no_needs
     (descendants (snd (layoutChildren 1 False (snd (layoutChildren 0 True example_tree))))) \<and>
   layoutChildren 2 False (snd (layoutChildren 1 False (snd (layoutChildren 0 True example_tree))))
     = (0, snd (layoutChildren 1 False (snd (layoutChildren 0 True example_tree))))"
proof -
  have d: "descendants example_tree = [A_data, leaf_data, B_data]"
    by (simp add: example_tree_def)
  have r: "makeWindowRectangle A_data = ((10, 10), (40, 40))"
    "makeWindowRectangle leaf_data = ((15, 15), (5, 5))"
    "makeWindowRectangle B_data = ((20, 20), (60, 60))"
    "windowRectangle (wdata example_tree) = ((0, 0), (100, 100))"
    by (simp_all add: makeWindowRectangle_examples members0_def windowRectangle_def
        example_tree_def root_data_def)
  have 1: "map windowRectangle (subtree (snd (layoutChildren 0 True example_tree)))
     = [((0, 0), (100, 100)), ((10, 10), (40, 40)), ((15, 15), (5, 5)), ((20, 20), (60, 60))]"
    "map forceRedraw (descendants (snd (layoutChildren 0 True example_tree)))
     = [True, True, True]"
    using layoutChildren_descendants [of 0 True example_tree]
    by (simp_all add: subtree_def layoutChildren_root d r del: layoutChildren.simps)
  show ?thesis
    using layout_pass_idempotent [of 1 0 True example_tree 2] 1
    by (simp del: layoutChildren.simps)
qed

text \<open>
  Claim C4 as stated fails for the widget the pass is called on: a root that has been
  laid out by \<open>layout\<close> has \<open>forceRedraw\<close> set, and it still has after a forced pass and
  two passes that are not forced.
\<close>

theorem layout_pass_root_flags_counterexample:
  "forceRedraw (wdata laid_out_root_tree) \<and>
   forceRedraw (wdata (snd (layoutChildren 2 False (snd (layoutChildren 1 False
     (snd (layoutChildren 0 True laid_out_root_tree))))))) \<and>
   \<not> list_all no_needs (subtree (snd (layoutChildren 2 False (snd (layoutChildren 1 False
     (snd (layoutChildren 0 True laid_out_root_tree)))))))"
proof -
  have "forceRedraw (wdata laid_out_root_tree)"
    by (simp add: laid_out_root_tree_def layout_fields)
  then show ?thesis
    by (simp add: layoutChildren_root subtree_def no_needs_def del: layoutChildren.simps)
qed

section \<open>Properties of the draw pass\<close>

lemma draw_calls:
  "map fst (draw theme drawContext t w) = descendants w"
  "map fst (draw_loop theme childContext t cs) = concat (map (\<lambda>c. wdata c # descendants c) cs)"
  by (induction theme drawContext t w and theme childContext t cs
      rule: draw_draw_loop.induct) (simp_all add: Let_def)

lemma draw_disabled:
  "list_all (disabled_style theme) (draw theme drawContext t w)"
  "list_all (disabled_style theme) (draw_loop theme childContext t cs)"
  by (induction theme drawContext t w and theme childContext t cs
      rule: draw_draw_loop.induct) (simp_all add: Let_def disabled_style_def)

text \<open>
  Claim C7. The draw pass makes one draw call for every proper descendant, and every
  call for a widget that is not enabled has the border colour and the fill colour of the
  theme at the widget's nesting level minus one, whatever its \<open>hover\<close> and \<open>focus\<close> are.
\<close>

theorem draw_disabled_overrides:
  "map fst (draw theme drawContext t w) = descendants w \<and>
   (\<forall>call \<in> set (draw theme drawContext t w).
      \<not> enabled (fst call) \<longrightarrow>
        color (snd call) = theme_borderColor theme (nestingLevel (fst call) - 1) \<and>
        fillColor (snd call) = theme_fillColor theme (nestingLevel (fst call) - 1))"
  using draw_disabled(1) [of theme drawContext t w]
  by (simp add: draw_calls list_all_iff disabled_style_def)

theorem draw_disabled_overrides_witness:
  "\<not> enabled B_data \<and> hover B_data \<and>
   (\<exists>ctx. (B_data, ctx) \<in> set (draw example_theme example_context 0 example_tree) \<and>
       color ctx = theme_borderColor example_theme (nestingLevel B_data - 1) \<and>
       fillColor ctx = theme_fillColor example_theme (nestingLevel B_data - 1)) \<and>
   theme_borderColor example_theme (nestingLevel B_data - 1) = 1 \<and>
   theme_borderColor example_theme (nestingLevel B_data + 1) = 3 \<and>
   theme_fillColor example_theme (nestingLevel B_data - 1) = 101 \<and>
   theme_fillColor example_theme (nestingLevel B_data + 1) = 103"
proof -
  have b: "\<not> enabled B_data" "hover B_data" "nestingLevel B_data = 2"
    by (simp_all add: B_data_def members0_def nestingLevel_def)
  have "B_data \<in> set (descendants example_tree)"
    by (simp add: example_tree_def)
  then have "B_data \<in> fst ` set (draw example_theme example_context 0 example_tree)"
    using draw_disabled_overrides [of example_theme example_context 0 example_tree]
    by (metis set_map)
  then obtain ctx where c: "(B_data, ctx) \<in> set (draw example_theme example_context 0 example_tree)"
    by auto
  with b(1) draw_disabled_overrides [of example_theme example_context 0 example_tree]
  have "color ctx = theme_borderColor example_theme (nestingLevel B_data - 1) \<and>
        fillColor ctx = theme_fillColor example_theme (nestingLevel B_data - 1)"
    by fastforce
  with b c show ?thesis
    by (auto simp add: example_theme_def)
qed

section \<open>Properties of the hit-test pass\<close>

lemma HitBox_max_assoc: "HitBox_max (HitBox_max a b) c = HitBox_max a (HitBox_max b c)"
  by (cases a; cases b; cases c) (auto simp add: HitBox_max_def)

lemma HitBox_max_empty [simp]: "HitBox_max HitBox_empty a = a" "HitBox_max a HitBox_empty = a"
  by (cases a; simp add: HitBox_max_def)+

lemma foldl_HitBox_max: "foldl HitBox_max a xs = HitBox_max a (foldl HitBox_max HitBox_empty xs)"
proof (induction xs arbitrary: a rule: rev_induct)
  case Nil
  show ?case by simp
next
  case (snoc x xs)
  show ?case
    by (simp add: snoc.IH [of a] HitBox_max_assoc)
qed

lemma best_append: "best (xs @ ys) = HitBox_max (best xs) (best ys)"
  unfolding best_def by (simp add: foldl_HitBox_max [of "foldl HitBox_max HitBox_empty _"])

lemma best_concat: "best (concat xss) = foldl HitBox_max HitBox_empty (map best xss)"
proof (induction xss rule: rev_induct)
  case Nil
  show ?case by (simp add: best_def)
next
  case (snoc xs xss)
  then show ?case by (simp add: best_append)
qed

lemma hitBoxTest_best:
  "hitBoxTest w position = best (hits w position)"
  "hitBoxTest_loop r cs position =
     HitBox_max r (best (concat (map (\<lambda>c. hits c (vec_sub position (offsetFromParent (wdata c)))) cs)))"
proof (induction w position and r cs position rule: hitBoxTest_hitBoxTest_loop.induct)
  case (1 this cs position)
  then show ?case
    by (simp add: best_append) (simp add: best_def)
next
  case (2 r position)
  show ?case by (simp add: best_def)
next
  case (3 r child rest position)
  let ?h = "hitBoxTest child (vec_sub position (offsetFromParent (wdata child)))"
  have "hitBoxTest_loop r (child # rest) position = hitBoxTest_loop (HitBox_max r ?h) rest position"
    by simp
  also have "\<dots> = HitBox_max (HitBox_max r ?h)
      (best (concat (map (\<lambda>c. hits c (vec_sub position (offsetFromParent (wdata c)))) rest)))"
    by (rule 3)
  finally show ?case
    by (simp add: 3 best_append HitBox_max_assoc)
qed

lemma best_Nil: "best [] = HitBox_empty"
  by (simp add: best_def)

lemma best_max:
  "xs \<noteq> [] \<Longrightarrow> \<exists>x \<in> set xs. best xs = HitBox (fst x) (snd x) \<and> (\<forall>y \<in> set xs. snd y \<le> snd x)"
proof (induction xs rule: rev_induct)
  case Nil
  then show ?case by simp
next
  case (snoc x xs)
  show ?case
  proof (cases "xs = []")
    case True
    then show ?thesis by (simp add: best_def)
  next
    case False
    with snoc.IH obtain m where m: "m \<in> set xs" "best xs = HitBox (fst m) (snd m)"
      "\<forall>y \<in> set xs. snd y \<le> snd m"
      by blast
    have b: "best (xs @ [x]) = HitBox_max (best xs) (HitBox (fst x) (snd x))"
      by (simp add: best_append) (simp add: best_def)
    show ?thesis
    proof (cases "snd m < snd x")
      case True
      with m b have "best (xs @ [x]) = HitBox (fst x) (snd x)"
        by (simp add: HitBox_max_def)
      with True m(3) show ?thesis by fastforce
    next
      case False
      with m b have "best (xs @ [x]) = HitBox (fst m) (snd m)"
        by (simp add: HitBox_max_def)
      with False m show ?thesis by fastforce
    qed
  qed
qed

text \<open>
  Claim C5. The candidates of \<open>hitBoxTest w position\<close> are the widget \<open>w\<close> and its
  descendants whose rectangle contains the position, translated by the offset of each
  child on the way down. Without a candidate the result is the empty hit box; otherwise
  it is a candidate whose elevation is the highest of all candidates.
\<close>

theorem hitBoxTest_topmost:
  "(hits w position = [] \<longrightarrow> hitBoxTest w position = HitBox_empty) \<and>
   (hits w position \<noteq> [] \<longrightarrow>
      (\<exists>x \<in> set (hits w position).
         hitBoxTest w position = HitBox (fst x) (snd x) \<and>
         (\<forall>y \<in> set (hits w position). snd y \<le> snd x)))"
  using best_max [of "hits w position"]
  by (simp add: hitBoxTest_best best_Nil)

theorem hitBoxTest_topmost_witness:
  "hits example_tree (30, 30) = [(wid root_data, 0), (wid A_data, 1), (wid B_data, 2)] \<and>
   hitBoxTest example_tree (30, 30) = HitBox (wid B_data) 2 \<and>
   hits example_tree (300, 30) = [] \<and>
   hitBoxTest example_tree (300, 30) = HitBox_empty"
proof -
  have h: "hits example_tree (30, 30) = [(wid root_data, 0), (wid A_data, 1), (wid B_data, 2)]"
    "hits example_tree (300, 30) = []"
    by (simp_all add: example_tree_def root_data_def A_data_def B_data_def leaf_data_def
        members0_def contains_def rectangle_def vec_sub_def)
  show ?thesis
    using hitBoxTest_topmost [of example_tree "(30, 30)"]
      hitBoxTest_topmost [of example_tree "(300, 30)"]
    by (auto simp add: h)
qed

section \<open>How the setters replace constraints\<close>












end
